theory Spec2Isabelle
  imports Complex_Main
begin

section \<open>Double-precision values\<close>

text \<open>
  The engine computes in C++ \<^verbatim>\<open>double\<close>. A double is modelled as a finite value, one of
  the two infinities, or NaN. Finite values are carried as exact reals: rounding and
  overflow of finite results are not modelled, and a zero carries no sign (it divides like
  \<open>+0\<close>). The special values follow the IEEE 754 rules that the C operators obey:
  NaN is contagious, \<open>inf - inf\<close>, \<open>0 * inf\<close>, \<open>0 / 0\<close> and \<open>inf / inf\<close> are NaN, a
  non-zero finite value divided by zero is an infinity, and every ordered comparison with
  NaN is false.
\<close>

datatype double = Fin real | PInf | NInf | NaN

fun isnan :: "double \<Rightarrow> bool" where
  "isnan NaN = True"
| "isnan _ = False"

fun isfinite :: "double \<Rightarrow> bool" where
  "isfinite (Fin _) = True"
| "isfinite _ = False"

fun dneg :: "double \<Rightarrow> double" where
  "dneg (Fin a) = Fin (- a)"
| "dneg PInf = NInf"
| "dneg NInf = PInf"
| "dneg NaN = NaN"

fun dadd :: "double \<Rightarrow> double \<Rightarrow> double" where
  "dadd (Fin a) (Fin b) = Fin (a + b)"
| "dadd NaN _ = NaN"
| "dadd _ NaN = NaN"
| "dadd PInf NInf = NaN"
| "dadd NInf PInf = NaN"
| "dadd PInf _ = PInf"
| "dadd _ PInf = PInf"
| "dadd NInf _ = NInf"
| "dadd _ NInf = NInf"

definition dsub :: "double \<Rightarrow> double \<Rightarrow> double" where
  "dsub a b = dadd a (dneg b)"

text \<open>The infinity whose sign is that of the real \<open>s\<close> (used only with \<open>s \<noteq> 0\<close>).\<close>

definition inf_of_sign :: "real \<Rightarrow> double" where
  "inf_of_sign s = (if 0 < s then PInf else NInf)"

fun dmul :: "double \<Rightarrow> double \<Rightarrow> double" where
  "dmul (Fin a) (Fin b) = Fin (a * b)"
| "dmul NaN _ = NaN"
| "dmul _ NaN = NaN"
| "dmul (Fin a) PInf = (if a = 0 then NaN else inf_of_sign a)"
| "dmul (Fin a) NInf = (if a = 0 then NaN else inf_of_sign (- a))"
| "dmul PInf (Fin b) = (if b = 0 then NaN else inf_of_sign b)"
| "dmul NInf (Fin b) = (if b = 0 then NaN else inf_of_sign (- b))"
| "dmul PInf PInf = PInf"
| "dmul PInf NInf = NInf"
| "dmul NInf PInf = NInf"
| "dmul NInf NInf = PInf"

fun ddiv :: "double \<Rightarrow> double \<Rightarrow> double" where
  "ddiv (Fin a) (Fin b) =
     (if b = 0 then (if a = 0 then NaN else inf_of_sign a) else Fin (a / b))"
| "ddiv NaN _ = NaN"
| "ddiv _ NaN = NaN"
| "ddiv (Fin a) PInf = Fin 0"
| "ddiv (Fin a) NInf = Fin 0"
| "ddiv PInf (Fin b) = (if 0 \<le> b then PInf else NInf)"
| "ddiv NInf (Fin b) = (if 0 \<le> b then NInf else PInf)"
| "ddiv PInf PInf = NaN"
| "ddiv PInf NInf = NaN"
| "ddiv NInf PInf = NaN"
| "ddiv NInf NInf = NaN"

fun dsqrt :: "double \<Rightarrow> double" where
  "dsqrt (Fin a) = (if a < 0 then NaN else Fin (sqrt a))"
| "dsqrt PInf = PInf"
| "dsqrt NInf = NaN"
| "dsqrt NaN = NaN"

text \<open>The C comparisons \<^verbatim>\<open>a < b\<close>, \<^verbatim>\<open>a > b\<close>, \<^verbatim>\<open>a <= b\<close> and \<^verbatim>\<open>a == b\<close>.\<close>

fun dlt :: "double \<Rightarrow> double \<Rightarrow> bool" where
  "dlt (Fin a) (Fin b) = (a < b)"
| "dlt NaN _ = False"
| "dlt _ NaN = False"
| "dlt _ NInf = False"
| "dlt PInf _ = False"
| "dlt NInf _ = True"
| "dlt _ PInf = True"

definition dgt :: "double \<Rightarrow> double \<Rightarrow> bool" where
  "dgt a b = dlt b a"

fun deq :: "double \<Rightarrow> double \<Rightarrow> bool" where
  "deq NaN _ = False"
| "deq _ NaN = False"
| "deq a b = (a = b)"

definition dle :: "double \<Rightarrow> double \<Rightarrow> bool" where
  "dle a b = (dlt a b \<or> deq a b)"


section \<open>Particles, neighbor edges and the particle system\<close>

text \<open>
  The scalar data of a \<^verbatim>\<open>Particle\<close>. The header that declares the classes is not part of
  the sources; the fields are the ones \<^verbatim>\<open>particle.cpp\<close> reads and writes. The member
  \<^verbatim>\<open>id\<close> is named \<open>id_p\<close> here, since \<open>id\<close> is the identity function of HOL. The arrays
  \<^verbatim>\<open>x\<close> and \<^verbatim>\<open>v\<close> of three doubles are lists; only the entries 0, 1 and 2 are read.
\<close>

record pdata =
  id_p :: int
  x :: "double list"
  v :: "double list"
  mass :: double
  rho :: double
  nu :: double
  solidTag :: int

text \<open>
  A neighbor edge, \<^verbatim>\<open>{neighbor, r, dWdr, D_i_j}\<close> in the source: the neighbor, the distance
  (\<open>dist_r\<close>), the kernel derivative and the diffusion coefficient. The edge keeps the
  scalar data of the neighbor it was built from.
\<close>

record NeighborNode =
  data :: pdata
  dist_r :: double
  dWdr :: double
  D_i_j :: double

record Particle = pdata +
  neighbors :: "NeighborNode list"

text \<open>
  The kd-tree of the ANN library is represented by the points it was built over
  (\<^verbatim>\<open>kdTree_pts\<close>), in index order.
\<close>

type_synonym ANNpoint = "double list"
type_synonym ANNkd_tree = "ANNpoint list"

record ParticleSystem =
  dimension :: int
  boundary_conditions :: string
  static_domain :: int
  num_types :: nat
  num_chem_species :: nat
  num_chem_rxns :: nat
  num_stoch_species :: nat
  num_stoch_rxns :: nat
  num_data_fn :: nat
  gravity :: "double list"
  kdTree_initialize :: bool
  h :: double
  particles :: "Particle list"
  kdTree :: ANNkd_tree

subsection \<open>Constructors\<close>

text \<open>
  \<^verbatim>\<open>ParticleSystem::ParticleSystem(size_t num_types, size_t num_chem_species, ...)\<close>.
  Each parameter has the name of a member, so inside the body the name denotes the
  parameter: \<^verbatim>\<open>num_types = num_types;\<close> assigns the parameter to itself and leaves the
  member as it was. The first argument \<open>raw\<close> is the object before the body runs (what its
  storage held); the scalar members the body does not write keep that value, and the
  vector \<^verbatim>\<open>particles\<close> starts empty.
\<close>

definition ParticleSystem_ctor ::
  "ParticleSystem \<Rightarrow> nat \<Rightarrow> nat \<Rightarrow> nat \<Rightarrow> nat \<Rightarrow> nat \<Rightarrow> nat \<Rightarrow> ParticleSystem" where
  "ParticleSystem_ctor raw num_types' num_chem_species' num_chem_rxns'
       num_stoch_species' num_stoch_rxns' num_data_fn' =
     raw\<lparr>dimension := 3,
         boundary_conditions := ''nnn'',
         static_domain := 0,
         gravity := [Fin 0, Fin 0, Fin 0],
         kdTree_initialize := False,
         particles := []\<rparr>"

text \<open>
  \<^verbatim>\<open>Particle::Particle(int id)\<close>: \<^verbatim>\<open>id = id;\<close> is again an assignment of the parameter to
  itself. The neighbor list is default-constructed (empty).
\<close>

definition Particle_ctor :: "Particle \<Rightarrow> int \<Rightarrow> Particle" where
  "Particle_ctor raw id' =
     raw\<lparr>x := [Fin 0, Fin 0, Fin 0],
         v := [Fin 0, Fin 0, Fin 0],
         mass := Fin 1,
         rho := Fin 1,
         nu := Fin (1 / 100),
         solidTag := 0,
         neighbors := []\<rparr>"

subsection \<open>Distances\<close>

text \<open>\<^verbatim>\<open>Particle::particle_dist_sqrd\<close> and \<^verbatim>\<open>Particle::particle_dist\<close>.\<close>

definition particle_dist_sqrd :: "'a pdata_scheme \<Rightarrow> 'b pdata_scheme \<Rightarrow> double" where
  "particle_dist_sqrd me p2 =
     (let a = dsub (x me ! 0) (x p2 ! 0);
          b = dsub (x me ! 1) (x p2 ! 1);
          c = dsub (x me ! 2) (x p2 ! 2)
      in dadd (dadd (dmul a a) (dmul b b)) (dmul c c))"

definition particle_dist :: "'a pdata_scheme \<Rightarrow> 'b pdata_scheme \<Rightarrow> double" where
  "particle_dist me p2 =
     (let a = dsub (x me ! 0) (x p2 ! 0);
          b = dsub (x me ! 1) (x p2 ! 1);
          c = dsub (x me ! 2) (x p2 ! 2)
      in dsqrt (dadd (dadd (dmul a a) (dmul b b)) (dmul c c)))"


section \<open>The pairwise interaction builder\<close>

text \<open>
  Constants of the C library and of the ANN library (its headers are not part of the
  sources): \<^verbatim>\<open>M_PI\<close> is the constant \<open>\<pi>\<close>; ANN defines \<^verbatim>\<open>ANN_DIST_INF\<close> as the largest
  finite double \<^verbatim>\<open>DBL_MAX\<close> and \<^verbatim>\<open>ANN_NULL_IDX\<close> as \<open>-1\<close>.
\<close>

definition M_PI :: real where
  "M_PI = pi"

definition DBL_MAX :: real where
  "DBL_MAX = (2 - 1 / 2 ^ 52) * 2 ^ 1023"

definition ANN_DIST_INF :: double where
  "ANN_DIST_INF = Fin DBL_MAX"

definition ANN_NULL_IDX :: int where
  "ANN_NULL_IDX = - 1"

text \<open>
  What the process prints before \<^verbatim>\<open>exit(1)\<close> when \<^verbatim>\<open>D_i_j\<close> is NaN, and the ways a call
  can end without returning: the abort of \<^verbatim>\<open>add_to_neighbor_list\<close>, and a read past the end
  of \<^verbatim>\<open>x\<close> or of \<^verbatim>\<open>system.particles\<close> in \<^verbatim>\<open>find_neighbors\<close> (undefined behaviour in C++,
  made a result here).
\<close>

record diagnostics =
  diag_me :: int
  diag_neighbor :: int
  diag_r :: double
  diag_h :: double
  diag_alpha :: double
  diag_dWdr :: double
  diag_mass :: double
  diag_rho :: double
  diag_n_mass :: double
  diag_n_rho :: double

datatype failure = Exit_NaN diagnostics | Out_Of_Bounds

text \<open>
  The local variables of \<^verbatim>\<open>add_to_neighbor_list\<close>, each with the operators in the order C
  evaluates them (\<^verbatim>\<open>*\<close> and \<^verbatim>\<open>/\<close> associate to the left).
\<close>

definition calc_alpha :: "double \<Rightarrow> double" where
  "calc_alpha h' = ddiv (Fin 105) (dmul (dmul (dmul (dmul (Fin 16) (Fin M_PI)) h') h') h')"

definition calc_dWdr :: "double \<Rightarrow> double \<Rightarrow> double" where
  "calc_dWdr r h' =
     (let R = ddiv r h';
          alpha = calc_alpha h'
      in dmul (dmul alpha (ddiv (dmul (Fin (- 12)) r) (dmul h' h')))
              (dmul (dsub (Fin 1) R) (dsub (Fin 1) R)))"

definition calc_wfd :: "double \<Rightarrow> double \<Rightarrow> double" where
  "calc_wfd r h' =
     (let ih = ddiv (Fin 1) h';
          ihsq = dmul ih ih;
          dhr = dsub h' r
      in dmul (dmul (dmul (dmul (dmul (dmul (Fin (- 25.066903536973515383)) dhr) dhr)
                ihsq) ihsq) ihsq) ih)"

definition calc_D_i_j ::
  "'a pdata_scheme \<Rightarrow> 'b pdata_scheme \<Rightarrow> double \<Rightarrow> double \<Rightarrow> double \<Rightarrow> double" where
  "calc_D_i_j me neighbor r2 wfd h' =
     ddiv (dmul (dmul (ddiv (dmul (ddiv (dmul (Fin (- 2)) (dmul (mass me) (mass neighbor)))
                                         (dadd (mass me) (mass neighbor)))
                                  (dadd (rho me) (rho neighbor)))
                            (dmul (rho me) (rho neighbor)))
                      r2)
                wfd)
          (dadd r2 (dmul (dmul (Fin 0.01) h') h'))"

text \<open>
  \<^verbatim>\<open>int Particle::add_to_neighbor_list(Particle neighbor, ParticleSystem system, double r2)\<close>.
  The result is the failure, or the returned \<^verbatim>\<open>int\<close> with the owner as the call leaves it.
  \<^verbatim>\<open>neighbors.push\<close> adds the edge at the end of the list. \<open>measured_r2\<close> is the value of
  \<^verbatim>\<open>r2\<close> after the first statement, which replaces the marker \<^verbatim>\<open>ANN_DIST_INF\<close> by the
  squared distance of the two positions.
\<close>

definition measured_r2 :: "Particle \<Rightarrow> Particle \<Rightarrow> double \<Rightarrow> double" where
  "measured_r2 me neighbor r2 =
     (if deq r2 ANN_DIST_INF then particle_dist_sqrd me neighbor else r2)"

definition add_to_neighbor_list ::
  "Particle \<Rightarrow> Particle \<Rightarrow> ParticleSystem \<Rightarrow> double \<Rightarrow> failure + (int \<times> Particle)" where
  "add_to_neighbor_list me neighbor system r2_arg =
     (let r2 = measured_r2 me neighbor r2_arg;
          r = dsqrt r2
      in if dgt r (h system) then Inr (0, me)
         else
           (let h' = h system;
                alpha = calc_alpha h';
                dWdr' = calc_dWdr r h';
                wfd = calc_wfd r h';
                D_i_j' = calc_D_i_j me neighbor r2 wfd h'
            in if isnan D_i_j' then
                 Inl (Exit_NaN \<lparr>diag_me = id_p me, diag_neighbor = id_p neighbor,
                        diag_r = r, diag_h = h', diag_alpha = alpha, diag_dWdr = dWdr',
                        diag_mass = mass me, diag_rho = rho me,
                        diag_n_mass = mass neighbor, diag_n_rho = rho neighbor\<rparr>)
               else
                 Inr (1, me\<lparr>neighbors := neighbors me @
                        [\<lparr>data = pdata.truncate neighbor, dist_r = r,
                          dWdr = dWdr', D_i_j = D_i_j'\<rparr>]\<rparr>)))"


section \<open>The spatial index and the neighbor search\<close>

text \<open>
  Modelled from the spec: the fixed-radius query of the spatial index. The engine calls
  \<^verbatim>\<open>annkFRSearch\<close> of the ANN library, whose code is not part of the sources. The spec asks
  for a search that returns all points within the radius with their exact squared
  distances; ANN's documented contract adds that the call returns the number of points
  in range, that it fills the first \<open>k\<close> slots of the two arrays with the nearest points
  in range in ascending distance, and that it pads unused slots with \<^verbatim>\<open>ANN_NULL_IDX\<close> and
  \<^verbatim>\<open>ANN_DIST_INF\<close>. A point is in range unless its squared distance exceeds the squared
  radius. Points at equal distance keep their index order.
\<close>

definition annDist :: "ANNpoint \<Rightarrow> ANNpoint \<Rightarrow> double" where
  "annDist q p =
     foldl (\<lambda>acc (a, b). dadd acc (dmul (dsub a b) (dsub a b))) (Fin 0) (zip q p)"

fun mk_insert :: "double \<times> int \<Rightarrow> (double \<times> int) list \<Rightarrow> (double \<times> int) list" where
  "mk_insert kv [] = [kv]"
| "mk_insert kv (e # es) =
     (if dgt (fst e) (fst kv) then kv # e # es else e # mk_insert kv es)"

definition pts_in_range :: "ANNkd_tree \<Rightarrow> ANNpoint \<Rightarrow> double \<Rightarrow> (double \<times> int) list" where
  "pts_in_range tree q sqRad =
     foldl (\<lambda>acc kv. mk_insert kv acc) []
       (filter (\<lambda>kv. \<not> dgt (fst kv) sqRad)
          (map (\<lambda>i. (annDist q (tree ! i), int i)) [0..<length tree]))"

definition annkFRSearch ::
  "ANNkd_tree \<Rightarrow> ANNpoint \<Rightarrow> double \<Rightarrow> nat \<Rightarrow> nat \<times> int list \<times> double list" where
  "annkFRSearch tree q sqRad k =
     (let found = pts_in_range tree q sqRad
      in (length found,
          map snd (take k found) @ replicate (k - length found) ANN_NULL_IDX,
          map fst (take k found) @ replicate (k - length found) ANN_DIST_INF))"

text \<open>\<^verbatim>\<open>Particle::get_k__approx\<close> and \<^verbatim>\<open>Particle::get_k__exact\<close>.\<close>

definition get_k__approx :: "ParticleSystem \<Rightarrow> nat" where
  "get_k__approx system = length (kdTree system)"

definition get_k__exact :: "ANNpoint \<Rightarrow> double \<Rightarrow> ParticleSystem \<Rightarrow> nat" where
  "get_k__exact queryPt dist' system = fst (annkFRSearch (kdTree system) queryPt dist' 0)"

text \<open>
  The loop of \<^verbatim>\<open>find_neighbors\<close> over the slots \<^verbatim>\<open>(nn_idx[i], dists[i])\<close>, \<open>i = 0, 1, ...\<close>:
  it stops at the end of the arrays or at the first \<^verbatim>\<open>ANN_NULL_IDX\<close>. The value returned by
  \<^verbatim>\<open>add_to_neighbor_list\<close> is dropped, as in the source.
\<close>

fun neighbor_loop :: "Particle \<Rightarrow> ParticleSystem \<Rightarrow> (int \<times> double) list \<Rightarrow> failure + Particle" where
  "neighbor_loop me system [] = Inr me"
| "neighbor_loop me system ((idx, d) # rest) =
     (if idx = ANN_NULL_IDX then Inr me
      else if idx < 0 \<or> int (length (particles system)) \<le> idx then Inl Out_Of_Bounds
      else (case add_to_neighbor_list me (particles system ! nat idx) system d of
              Inl e \<Rightarrow> Inl e
            | Inr (_, me') \<Rightarrow> neighbor_loop me' system rest))"

text \<open>
  \<^verbatim>\<open>void Particle::find_neighbors(ParticleSystem system, bool use_exact_k)\<close>. The previous
  neighbors are not removed (the source leaves that as a TODO).
\<close>

definition find_neighbors :: "Particle \<Rightarrow> ParticleSystem \<Rightarrow> bool \<Rightarrow> failure + Particle" where
  "find_neighbors me system use_exact_k =
     (if dimension system < 0 \<or> int (length (x me)) < dimension system then Inl Out_Of_Bounds
      else
        (let queryPt = take (nat (dimension system)) (x me);
             dist' = dmul (h system) (h system);
             k = (if use_exact_k then get_k__exact queryPt dist' system
                  else get_k__approx system);
             (_, nn_idx, dists) = annkFRSearch (kdTree system) queryPt dist' k
         in neighbor_loop me system (zip nn_idx dists)))"

section \<open>Sequences of calls on one particle\<close>

datatype call = Add_call Particle ParticleSystem double | Find_call ParticleSystem bool

fun call_system :: "call \<Rightarrow> ParticleSystem" where
  "call_system (Add_call _ system _) = system"
| "call_system (Find_call system _) = system"

fun run_call :: "Particle \<Rightarrow> call \<Rightarrow> failure + Particle" where
  "run_call me (Add_call neighbor system r2) =
     (case add_to_neighbor_list me neighbor system r2 of
        Inl e \<Rightarrow> Inl e
      | Inr (_, me') \<Rightarrow> Inr me')"
| "run_call me (Find_call system use_exact_k) = find_neighbors me system use_exact_k"

fun run_calls :: "Particle \<Rightarrow> call list \<Rightarrow> failure + Particle" where
  "run_calls me [] = Inr me"
| "run_calls me (c # cs) =
     (case run_call me c of Inl e \<Rightarrow> Inl e | Inr me' \<Rightarrow> run_calls me' cs)"

text \<open>Every edge of the particle has a stored distance \<^verbatim>\<open><=\<close> the given radius.\<close>

definition edges_within :: "double \<Rightarrow> Particle \<Rightarrow> bool" where
  "edges_within radius p = list_all (\<lambda>e. dle (dist_r e) radius) (neighbors p)"

section \<open>The event-time heap\<close>

text \<open>
  Modelled from the spec: the event schedule. \<^verbatim>\<open>simulate_rdme.h\<close> only declares the member
  \<^verbatim>\<open>ordered_list_t*heap\<close>; the type and its operations are not part of the sources. The
  spec's contract is \<^verbatim>\<open>insert(entity_id, time)\<close>, \<^verbatim>\<open>pop_min() -> (entity_id, time)\<close> and
  \<^verbatim>\<open>update(entity_id, new_time)\<close>, ordered ascending by time, ties broken by insertion
  order. The schedule is the list of its entries in insertion order; \<^verbatim>\<open>update\<close> changes the
  time of the entity's entries in place, and \<^verbatim>\<open>pop_min\<close> takes out the first entry whose
  time is least.
\<close>

type_synonym 't event_heap = "(nat \<times> 't) list"

definition heap_insert :: "nat \<Rightarrow> 't \<Rightarrow> 't event_heap \<Rightarrow> 't event_heap" where
  "heap_insert entity t hp = hp @ [(entity, t)]"

definition heap_update :: "nat \<Rightarrow> 't \<Rightarrow> 't event_heap \<Rightarrow> 't event_heap" where
  "heap_update entity t hp = map (\<lambda>e. if fst e = entity then (entity, t) else e) hp"

fun first_min :: "nat \<times> 't::linorder \<Rightarrow> 't event_heap \<Rightarrow> nat \<times> 't" where
  "first_min m [] = m"
| "first_min m (e # es) = first_min (if snd e < snd m then e else m) es"

definition pop_min :: "('t::linorder) event_heap \<Rightarrow> ((nat \<times> 't) \<times> 't event_heap) option" where
  "pop_min hp =
     (case hp of
        [] \<Rightarrow> None
      | e # es \<Rightarrow> (let m = first_min e es in Some (m, remove1 m hp)))"

datatype 't heap_op = Insert nat 't | Update nat 't

fun apply_op :: "'t event_heap \<Rightarrow> 't heap_op \<Rightarrow> 't event_heap" where
  "apply_op hp (Insert entity t) = heap_insert entity t hp"
| "apply_op hp (Update entity t) = heap_update entity t hp"

definition apply_ops :: "'t heap_op list \<Rightarrow> 't event_heap" where
  "apply_ops ops = foldl apply_op [] ops"


section \<open>Binary64 arithmetic\<close>

















subsection \<open>\<^verbatim>\<open>add_to_neighbor_list\<close> in binary64 arithmetic\<close>












subsection \<open>Counting roundings\<close>






section \<open>Concrete particles and systems\<close>

text \<open>
  A particle with the given id, position, mass and density and no neighbors, and a
  system of the given support radius whose index is built over the positions of its
  particles. They are the inputs at which the theorems below are evaluated.
\<close>

definition particle_at :: "int \<Rightarrow> real \<Rightarrow> real \<Rightarrow> real \<Rightarrow> real \<Rightarrow> real \<Rightarrow> Particle" where
  "particle_at i a b c m d =
     \<lparr>id_p = i, x = [Fin a, Fin b, Fin c], v = [Fin 0, Fin 0, Fin 0],
      mass = Fin m, rho = Fin d, nu = Fin 0.01, solidTag = 0, neighbors = []\<rparr>"

definition system_of :: "real \<Rightarrow> Particle list \<Rightarrow> ParticleSystem" where
  "system_of radius ps =
     \<lparr>dimension = 3, boundary_conditions = ''nnn'', static_domain = 0,
      num_types = 1, num_chem_species = 0, num_chem_rxns = 0, num_stoch_species = 1,
      num_stoch_rxns = 0, num_data_fn = 0, gravity = [Fin 0, Fin 0, Fin 0],
      kdTree_initialize = True, h = Fin radius, particles = ps, kdTree = map x ps\<rparr>"

text \<open>
  Three particles on the first axis, at \<open>0\<close>, \<open>1/2\<close> and \<open>3\<close>, of mass and density 1.
\<close>

definition three_particles :: "Particle list" where
  "three_particles =
     [particle_at 0 0 0 0 1 1, particle_at 1 (1/2) 0 0 1 1, particle_at 2 3 0 0 1 1]"


section \<open>Facts about the double operations\<close>

lemmas eval_simps = particle_at_def system_of_def Let_def ANN_DIST_INF_def DBL_MAX_def dgt_def
  calc_alpha_def calc_dWdr_def calc_wfd_def calc_D_i_j_def dsub_def M_PI_def pdata.truncate_def
  inf_of_sign_def real_sqrt_divide particle_dist_sqrd_def measured_r2_def

lemma dmul_commute: "dmul a b = dmul b a"
  by (cases a; cases b) (simp_all add: mult.commute)

lemma dadd_commute: "dadd a b = dadd b a"
  by (cases a; cases b) (simp_all add: add.commute)

lemma dsub_sq_sym: "dmul (dsub a b) (dsub a b) = dmul (dsub b a) (dsub b a)"
  by (cases a; cases b) (simp_all add: dsub_def algebra_simps)

lemma particle_dist_sqrd_sym: "particle_dist_sqrd p q = particle_dist_sqrd q p"
  by (simp add: particle_dist_sqrd_def Let_def dsub_sq_sym [of "x p ! _" "x q ! _"])

text \<open>NaN is contagious: a result that is not NaN had no NaN operand.\<close>

lemma isnan_dneg: "isnan (dneg a) = isnan a"
  by (cases a) simp_all

lemma not_isnan_dadd: "\<not> isnan (dadd a b) \<Longrightarrow> \<not> isnan a \<and> \<not> isnan b"
  by (cases a; cases b) simp_all

lemma not_isnan_dsub: "\<not> isnan (dsub a b) \<Longrightarrow> \<not> isnan a \<and> \<not> isnan b"
  unfolding dsub_def using not_isnan_dadd [of a "dneg b"] by (simp add: isnan_dneg)

lemma not_isnan_dmul: "\<not> isnan (dmul a b) \<Longrightarrow> \<not> isnan a \<and> \<not> isnan b"
  by (cases a; cases b) simp_all

lemma not_isnan_ddiv: "\<not> isnan (ddiv a b) \<Longrightarrow> \<not> isnan a \<and> \<not> isnan b"
  by (cases a; cases b) simp_all

lemma not_isnan_wfd: "\<not> isnan (calc_wfd r radius) \<Longrightarrow> \<not> isnan r \<and> \<not> isnan radius"
  unfolding calc_wfd_def Let_def
  by (blast dest: not_isnan_dmul not_isnan_dsub)

lemma not_isnan_D_i_j: "\<not> isnan (calc_D_i_j me nb r2 wfd radius) \<Longrightarrow> \<not> isnan wfd"
  unfolding calc_D_i_j_def
  by (blast dest: not_isnan_dmul not_isnan_ddiv)

lemma dle_of_not_dgt: "\<not> isnan a \<Longrightarrow> \<not> isnan b \<Longrightarrow> \<not> dgt a b \<Longrightarrow> dle a b"
  by (cases a; cases b) (auto simp: dgt_def dle_def)

section \<open>The three outcomes of \<^verbatim>\<open>add_to_neighbor_list\<close>\<close>

lemma add_result:
  "add_to_neighbor_list me nb sys r2 =
     (let r = dsqrt (measured_r2 me nb r2) in
      if dgt r (h sys) then Inr (0, me)
      else if isnan (calc_D_i_j me nb (measured_r2 me nb r2) (calc_wfd r (h sys)) (h sys)) then
         Inl (Exit_NaN \<lparr>diag_me = id_p me, diag_neighbor = id_p nb,
                diag_r = r, diag_h = h sys, diag_alpha = calc_alpha (h sys),
                diag_dWdr = calc_dWdr r (h sys),
                diag_mass = mass me, diag_rho = rho me,
                diag_n_mass = mass nb, diag_n_rho = rho nb\<rparr>)
      else Inr (1, me\<lparr>neighbors := neighbors me @
                [\<lparr>data = pdata.truncate nb, dist_r = r, dWdr = calc_dWdr r (h sys),
                  D_i_j = calc_D_i_j me nb (measured_r2 me nb r2)
                            (calc_wfd r (h sys)) (h sys)\<rparr>]\<rparr>))"
  by (simp add: add_to_neighbor_list_def Let_def)

section \<open>Exclusion beyond the support radius\<close>

text \<open>
  C1 (as amended). \<^verbatim>\<open>add_to_neighbor_list\<close> returns 0 and leaves the owner, and so its
  neighbor list, as it was, without failing, exactly when the distance \<open>r = sqrt(r2)\<close> is
  strictly greater than the support radius \<open>h\<close>. A pair at \<open>r = h\<close> is not excluded.
\<close>

theorem add_to_neighbor_list_excluded_iff:
  "add_to_neighbor_list me neighbor system r2 = Inr (0, me) \<longleftrightarrow>
   dgt (dsqrt (measured_r2 me neighbor r2)) (h system)"
  by (simp add: add_result Let_def)

text \<open>At \<open>h = 1\<close> a candidate at distance \<open>2\<close> is left out.\<close>

theorem add_to_neighbor_list_excluded_witness:
  "dgt (dsqrt (measured_r2 (particle_at 0 0 0 0 1 1) (particle_at 1 2 0 0 1 1) (Fin 4)))
       (h (system_of 1 [])) \<and>
   add_to_neighbor_list (particle_at 0 0 0 0 1 1) (particle_at 1 2 0 0 1 1)
       (system_of 1 []) (Fin 4)
     = Inr (0, particle_at 0 0 0 0 1 1)"
  using add_to_neighbor_list_excluded_iff
    [of "particle_at 0 0 0 0 1 1" "particle_at 1 2 0 0 1 1" "system_of 1 []" "Fin 4"]
  by (simp add: eval_simps)

text \<open>
  At \<open>h = 1\<close> a candidate at distance exactly \<open>1\<close> is included: the call returns 1 and
  appends an edge with \<open>r = 1\<close>, \<open>dWdr = 0\<close> and \<open>D_i_j = 0\<close>.
\<close>

theorem boundary_pair_is_included:
  "dsqrt (measured_r2 (particle_at 0 0 0 0 1 1) (particle_at 1 1 0 0 1 1) (Fin 1))
     = h (system_of 1 []) \<and>
   add_to_neighbor_list (particle_at 0 0 0 0 1 1) (particle_at 1 1 0 0 1 1)
       (system_of 1 []) (Fin 1) =
     Inr (1, (particle_at 0 0 0 0 1 1)\<lparr>neighbors :=
        [\<lparr>data = pdata.truncate (particle_at 1 1 0 0 1 1), dist_r = Fin 1,
          dWdr = Fin 0, D_i_j = Fin 0\<rparr>]\<rparr>)"
  by (simp add: add_to_neighbor_list_def eval_simps)

section \<open>The NaN guard\<close>

text \<open>
  C2 (as amended). For a pair that the radius check does not exclude, the call aborts
  exactly when the computed \<open>D_i_j\<close> is NaN; the abort carries both ids, \<open>r\<close>, \<open>h\<close>,
  \<open>alpha\<close>, \<open>dWdr\<close> and both masses and densities, and no edge is appended. In every other
  case, an infinite \<open>D_i_j\<close> included, the call returns 1 and appends the edge.
\<close>

theorem add_to_neighbor_list_nan_guard:
  assumes "r = dsqrt (measured_r2 me neighbor r2)"
    and "D = calc_D_i_j me neighbor (measured_r2 me neighbor r2)
               (calc_wfd r (h system)) (h system)"
    and "\<not> dgt r (h system)"
  shows "add_to_neighbor_list me neighbor system r2 =
     (if isnan D then
        Inl (Exit_NaN \<lparr>diag_me = id_p me, diag_neighbor = id_p neighbor, diag_r = r,
               diag_h = h system, diag_alpha = calc_alpha (h system),
               diag_dWdr = calc_dWdr r (h system), diag_mass = mass me, diag_rho = rho me,
               diag_n_mass = mass neighbor, diag_n_rho = rho neighbor\<rparr>)
      else
        Inr (1, me\<lparr>neighbors := neighbors me @
               [\<lparr>data = pdata.truncate neighbor, dist_r = r,
                 dWdr = calc_dWdr r (h system), D_i_j = D\<rparr>]\<rparr>))"
  using assms by (simp add: add_result Let_def)

text \<open>
  Two particles of mass 0 at distance \<open>h = 1\<close> give \<open>0 / 0\<close> and the call aborts with the
  diagnostics; with masses 1 the coefficient is 0 and the edge is appended.
\<close>

theorem add_to_neighbor_list_nan_guard_witness:
  "add_to_neighbor_list (particle_at 7 0 0 0 0 1) (particle_at 8 1 0 0 0 1)
       (system_of 1 []) (Fin 1) =
     Inl (Exit_NaN \<lparr>diag_me = 7, diag_neighbor = 8, diag_r = Fin 1, diag_h = Fin 1,
            diag_alpha = Fin (105 / (16 * pi)), diag_dWdr = Fin 0, diag_mass = Fin 0,
            diag_rho = Fin 1, diag_n_mass = Fin 0, diag_n_rho = Fin 1\<rparr>) \<and>
   add_to_neighbor_list (particle_at 7 0 0 0 1 1) (particle_at 8 1 0 0 1 1)
       (system_of 1 []) (Fin 1) =
     Inr (1, (particle_at 7 0 0 0 1 1)\<lparr>neighbors :=
        [\<lparr>data = pdata.truncate (particle_at 8 1 0 0 1 1), dist_r = Fin 1,
          dWdr = Fin 0, D_i_j = Fin 0\<rparr>]\<rparr>)"
proof -
  let ?s = "system_of 1 []"
  let ?p = "particle_at 7 0 0 0 0 1" let ?q = "particle_at 8 1 0 0 0 1"
  let ?p' = "particle_at 7 0 0 0 1 1" let ?q' = "particle_at 8 1 0 0 1 1"
  have r: "Fin 1 = dsqrt (measured_r2 ?p ?q (Fin 1))"
    "Fin 1 = dsqrt (measured_r2 ?p' ?q' (Fin 1))"
    by (simp_all add: eval_simps)
  have g: "\<not> dgt (Fin 1) (h ?s)"
    by (simp add: eval_simps)
  have D: "NaN = calc_D_i_j ?p ?q (measured_r2 ?p ?q (Fin 1)) (calc_wfd (Fin 1) (h ?s)) (h ?s)"
    by (simp add: eval_simps)
  have D': "Fin 0 =
      calc_D_i_j ?p' ?q' (measured_r2 ?p' ?q' (Fin 1)) (calc_wfd (Fin 1) (h ?s)) (h ?s)"
    by (simp add: eval_simps)
  show ?thesis
    using add_to_neighbor_list_nan_guard [OF r(1) D g]
      add_to_neighbor_list_nan_guard [OF r(2) D' g]
    by (simp add: calc_alpha_def calc_dWdr_def M_PI_def dsub_def particle_at_def system_of_def)
qed

text \<open>
  An owner of density 0 and a neighbor of density 1 at distance \<open>h / 2\<close>: the factor
  \<^verbatim>\<open>(rho+neighbor.rho)/(rho*neighbor.rho)\<close> divides by zero, \<open>D_i_j\<close> is \<open>+inf\<close>, which is
  not a finite number and not NaN, and the edge is appended with it.
\<close>

theorem infinite_D_i_j_is_appended:
  "\<not> isfinite (calc_D_i_j (particle_at 0 0 0 0 1 0) (particle_at 1 (1/2) 0 0 1 1)
        (Fin (1/4)) (calc_wfd (Fin (1/2)) (Fin 1)) (Fin 1)) \<and>
   add_to_neighbor_list (particle_at 0 0 0 0 1 0) (particle_at 1 (1/2) 0 0 1 1)
       (system_of 1 []) (Fin (1/4)) =
     Inr (1, (particle_at 0 0 0 0 1 0)\<lparr>neighbors :=
        [\<lparr>data = pdata.truncate (particle_at 1 (1/2) 0 0 1 1), dist_r = Fin (1/2),
          dWdr = Fin (- 315 / (32 * pi)), D_i_j = PInf\<rparr>]\<rparr>)"
  by (simp add: add_to_neighbor_list_def eval_simps)

section \<open>The marker distance\<close>

text \<open>
  C4. A call with the marker \<^verbatim>\<open>ANN_DIST_INF\<close> as squared distance is the call with the
  squared distance of the two positions: the same decision, the same edge, the same
  returned value.
\<close>

theorem marker_distance_is_remeasured:
  "add_to_neighbor_list me neighbor system ANN_DIST_INF =
   add_to_neighbor_list me neighbor system (particle_dist_sqrd me neighbor)"
proof -
  have "measured_r2 me neighbor ANN_DIST_INF =
      measured_r2 me neighbor (particle_dist_sqrd me neighbor)"
    by (simp add: measured_r2_def ANN_DIST_INF_def)
  then show ?thesis by (simp add: add_to_neighbor_list_def)
qed

section \<open>The distance helpers\<close>

text \<open>
  C10. \<^verbatim>\<open>particle_dist\<close> is the square root of \<^verbatim>\<open>particle_dist_sqrd\<close>, and both are
  symmetric in the two particles.
\<close>

theorem particle_dist_agree_and_symmetric:
  "particle_dist p q = dsqrt (particle_dist_sqrd p q) \<and>
   particle_dist p q = particle_dist q p \<and>
   particle_dist_sqrd p q = particle_dist_sqrd q p"
  by (simp add: particle_dist_def particle_dist_sqrd_def Let_def
      dsub_sq_sym [of "x p ! _" "x q ! _"])


section \<open>The stored kernel derivative and diffusion coefficient\<close>

subsection \<open>Bounds for \<open>\<pi>\<close>\<close>








subsection \<open>One rounding\<close>




subsection \<open>Several roundings\<close>



























subsection \<open>The operations on finite values in range\<close>

















subsection \<open>The local variables of \<^verbatim>\<open>add_to_neighbor_list\<close>\<close>





subsection \<open>The literals and \<open>\<pi>\<close>\<close>












section \<open>The coefficient of the reversed pair\<close>

lemma calc_D_i_j_sym: "calc_D_i_j p q r2 w radius = calc_D_i_j q p r2 w radius"
  by (simp add: calc_D_i_j_def dmul_commute [of "mass p"] dadd_commute [of "mass p"]
      dmul_commute [of "rho p"] dadd_commute [of "rho p"])

lemma measured_r2_sym: "measured_r2 p q r2 = measured_r2 q p r2"
  by (simp add: measured_r2_def particle_dist_sqrd_sym [of p q])

lemma add_swap:
  assumes "add_to_neighbor_list p q sys r2 = Inr (1, p')"
  shows "\<exists>q'. add_to_neighbor_list q p sys r2 = Inr (1, q') \<and>
     D_i_j (last (neighbors q')) = D_i_j (last (neighbors p')) \<and>
     dWdr (last (neighbors q')) = dWdr (last (neighbors p')) \<and>
     dist_r (last (neighbors q')) = dist_r (last (neighbors p'))"
  using assms
  by (auto simp: add_result Let_def measured_r2_sym [of q p] calc_D_i_j_sym [of q p]
      split: if_splits)

text \<open>
  C5 (as amended). The coefficient is symmetric: when the pair (owner \<open>p\<close>, neighbor \<open>q\<close>)
  is included, so is the reversed pair under the same system and squared distance, and
  the two edges carry the same \<open>D_i_j\<close>, the same \<open>dWdr\<close> and the same distance.
\<close>

theorem reversed_pair_same_coefficient:
  assumes "add_to_neighbor_list p q system r2 = Inr (1, p')"
  shows "\<exists>q'. add_to_neighbor_list q p system r2 = Inr (1, q') \<and>
     D_i_j (last (neighbors q')) = D_i_j (last (neighbors p')) \<and>
     dWdr (last (neighbors q')) = dWdr (last (neighbors p')) \<and>
     dist_r (last (neighbors q')) = dist_r (last (neighbors p'))"
  using assms by (rule add_swap)

text \<open>Masses 1 and 3, densities 1 and 2, \<open>h = 1\<close>, \<open>r = 0.5\<close>: both directions agree.\<close>

theorem reversed_pair_same_coefficient_witness:
  "\<exists>p' q'.
     add_to_neighbor_list (particle_at 0 0 0 0 1 1) (particle_at 1 (1/2) 0 0 3 2)
       (system_of 1 []) (Fin (1/4)) = Inr (1, p') \<and>
     add_to_neighbor_list (particle_at 1 (1/2) 0 0 3 2) (particle_at 0 0 0 0 1 1)
       (system_of 1 []) (Fin (1/4)) = Inr (1, q') \<and>
     D_i_j (last (neighbors q')) = D_i_j (last (neighbors p')) \<and>
     mass (particle_at 0 0 0 0 1 1) \<noteq> mass (particle_at 1 (1/2) 0 0 3 2) \<and>
     rho (particle_at 0 0 0 0 1 1) \<noteq> rho (particle_at 1 (1/2) 0 0 3 2)"
proof -
  let ?p = "particle_at 0 0 0 0 1 1" let ?q = "particle_at 1 (1/2) 0 0 3 2"
  obtain p' where e: "add_to_neighbor_list ?p ?q (system_of 1 []) (Fin (1/4)) = Inr (1, p')"
    by (simp add: add_to_neighbor_list_def eval_simps)
  from reversed_pair_same_coefficient [OF e] obtain q' where
    "add_to_neighbor_list ?q ?p (system_of 1 []) (Fin (1/4)) = Inr (1, q')"
    "D_i_j (last (neighbors q')) = D_i_j (last (neighbors p'))"
    by blast
  with e show ?thesis by (auto simp: particle_at_def)
qed

text \<open>
  No included pair has a coefficient that differs from the coefficient of the reversed
  pair.
\<close>

theorem no_pair_is_directional:
  "\<not> (\<exists>p q system r2 p' q'.
    add_to_neighbor_list p q system r2 = Inr (1, p') \<and>
    add_to_neighbor_list q p system r2 = Inr (1, q') \<and>
    D_i_j (last (neighbors p')) \<noteq> D_i_j (last (neighbors q')))"
  using add_swap by fastforce


section \<open>Exact and approximate neighbor search\<close>

lemma loop_padding:
  "neighbor_loop me sys (slots @ replicate n (ANN_NULL_IDX, d)) = neighbor_loop me sys slots"
proof (induction me sys slots rule: neighbor_loop.induct)
  case (1 me system)
  then show ?case by (cases n) simp_all
next
  case (2 me system idx d rest)
  then show ?case by (simp split: sum.splits)
qed

lemma length_mk_insert: "length (mk_insert kv es) = Suc (length es)"
  by (induction es) simp_all

lemma length_foldl_mk_insert:
  "length (foldl (\<lambda>acc kv. mk_insert kv acc) acc kvs) = length acc + length kvs"
  by (induction kvs arbitrary: acc) (simp_all add: length_mk_insert)

lemma length_pts_in_range: "length (pts_in_range tree q sqRad) \<le> length tree"
proof -
  have "length (filter (\<lambda>kv. \<not> dgt (fst kv) sqRad)
          (map (\<lambda>i. (annDist q (tree ! i), int i)) [0..<length tree])) \<le> length tree"
    using length_filter_le [of _ "map (\<lambda>i. (annDist q (tree ! i), int i)) [0..<length tree]"]
    by simp
  then show ?thesis by (simp add: pts_in_range_def length_foldl_mk_insert)
qed

text \<open>The search from the first of the three particles, whatever edges it already has.\<close>

lemma pts_in_range_three:
  "pts_in_range (map x three_particles) [Fin 0, Fin 0, Fin 0] (Fin 1)
     = [(Fin 0, 0), (Fin (1/4), 1)]"
  by (simp add: pts_in_range_def three_particles_def particle_at_def annDist_def
      dsub_def dgt_def upt_rec)

lemma find_three:
  "find_neighbors ((particle_at 0 0 0 0 1 1)\<lparr>neighbors := es\<rparr>)
       (system_of 1 three_particles) True =
     Inr ((particle_at 0 0 0 0 1 1)\<lparr>neighbors := es @ [
       \<lparr>data = pdata.truncate (particle_at 0 0 0 0 1 1), dist_r = Fin 0,
         dWdr = Fin 0, D_i_j = Fin 0\<rparr>,
       \<lparr>data = pdata.truncate (particle_at 1 (1/2) 0 0 1 1), dist_r = Fin (1/2),
         dWdr = Fin (- 315 / (32 * pi)),
         D_i_j = Fin (25.066903536973515383 / 2.08)\<rparr>]\<rparr>)"
  apply (simp add: find_neighbors_def Let_def get_k__exact_def annkFRSearch_def)
  apply (simp add: system_of_def particle_at_def pts_in_range_three)
  apply (simp add: three_particles_def ANN_NULL_IDX_def add_to_neighbor_list_def eval_simps)
  done

text \<open>
  C6. \<^verbatim>\<open>find_neighbors\<close> gives the same result, the same neighbor list or the same
  failure, with \<^verbatim>\<open>use_exact_k\<close> true (\<open>k\<close> is the number of points in range) and false
  (\<open>k\<close> is the number of indexed points): the search fills the same leading slots, and the
  loop stops at the first unused slot.
\<close>

theorem find_neighbors_exact_eq_approx:
  "find_neighbors me system True = find_neighbors me system False"
proof (cases "dimension system < 0 \<or> int (length (x me)) < dimension system")
  case True
  then show ?thesis by (simp add: find_neighbors_def)
next
  case False
  define q where "q = take (nat (dimension system)) (x me)"
  define found where "found = pts_in_range (kdTree system) q (dmul (h system) (h system))"
  define n where "n = length (kdTree system)"
  have le: "length found \<le> n"
    unfolding found_def n_def by (rule length_pts_in_range)
  have exact: "find_neighbors me system True =
      neighbor_loop me system (zip (map snd found) (map fst found))"
    using False
    by (simp add: find_neighbors_def Let_def get_k__exact_def annkFRSearch_def q_def found_def)
  have "zip (map snd found @ replicate (n - length found) ANN_NULL_IDX)
            (map fst found @ replicate (n - length found) ANN_DIST_INF)
        = zip (map snd found) (map fst found)
          @ replicate (n - length found) (ANN_NULL_IDX, ANN_DIST_INF)"
    by (simp add: zip_replicate)
  with le have approx: "find_neighbors me system False =
      neighbor_loop me system (zip (map snd found) (map fst found)
        @ replicate (n - length found) (ANN_NULL_IDX, ANN_DIST_INF))"
    using False
    by (simp add: find_neighbors_def Let_def get_k__approx_def annkFRSearch_def q_def
        found_def n_def)
  show ?thesis by (simp only: exact approx loop_padding)
qed

text \<open>
  Among the three particles with \<open>h = 1\<close>, the approximate search from the first one
  (\<open>k = 3\<close>, one slot unused) finds the particle itself at distance 0 and the second one at
  distance \<open>1/2\<close>, as the exact search does.
\<close>

theorem find_neighbors_exact_eq_approx_witness:
  "find_neighbors (particle_at 0 0 0 0 1 1) (system_of 1 three_particles) False =
     Inr ((particle_at 0 0 0 0 1 1)\<lparr>neighbors := [
       \<lparr>data = pdata.truncate (particle_at 0 0 0 0 1 1), dist_r = Fin 0,
         dWdr = Fin 0, D_i_j = Fin 0\<rparr>,
       \<lparr>data = pdata.truncate (particle_at 1 (1/2) 0 0 1 1), dist_r = Fin (1/2),
         dWdr = Fin (- 315 / (32 * pi)),
         D_i_j = Fin (25.066903536973515383 / 2.08)\<rparr>]\<rparr>)"
proof -
  have "(particle_at 0 0 0 0 1 1)\<lparr>neighbors := []\<rparr> = particle_at 0 0 0 0 1 1"
    by (simp add: particle_at_def)
  with find_three [of "[]"] show ?thesis
    using find_neighbors_exact_eq_approx
      [of "particle_at 0 0 0 0 1 1" "system_of 1 three_particles"]
    by simp
qed

section \<open>The radius invariant of the neighbor lists\<close>

lemma add_preserves:
  assumes "edges_within (h sys) me" "add_to_neighbor_list me nb sys r2 = Inr (k, me')"
  shows "edges_within (h sys) me'"
proof (cases "dgt (dsqrt (measured_r2 me nb r2)) (h sys)")
  case True
  with assms show ?thesis by (simp add: add_result)
next
  case False
  let ?r = "dsqrt (measured_r2 me nb r2)"
  let ?D = "calc_D_i_j me nb (measured_r2 me nb r2) (calc_wfd ?r (h sys)) (h sys)"
  from False assms(2) have nn: "\<not> isnan ?D"
    by (auto simp: add_result Let_def split: if_splits)
  then have "\<not> isnan ?r \<and> \<not> isnan (h sys)"
    using not_isnan_D_i_j not_isnan_wfd by blast
  with False have "dle ?r (h sys)" by (simp add: dle_of_not_dgt)
  with False nn assms show ?thesis
    by (auto simp: add_result Let_def edges_within_def)
qed

lemma loop_preserves:
  "edges_within (h sys) me \<Longrightarrow> neighbor_loop me sys slots = Inr me' \<Longrightarrow>
   edges_within (h sys) me'"
proof (induction me sys slots rule: neighbor_loop.induct)
  case (1 me system)
  then show ?case by simp
next
  case (2 me system idx d rest)
  show ?case
  proof (cases "idx = ANN_NULL_IDX")
    case True
    with 2 show ?thesis by simp
  next
    case False
    with "2.prems" obtain k m where
      a: "add_to_neighbor_list me (particles system ! nat idx) system d = Inr (k, m)"
      and b: "neighbor_loop m system rest = Inr me'"
      and c: "\<not> (idx < 0 \<or> int (length (particles system)) \<le> idx)"
      by (auto split: if_splits sum.splits)
    from add_preserves [OF "2.prems"(1) a] have "edges_within (h system) m" .
    from "2.IH" [OF False c a refl this b] show ?thesis .
  qed
qed

lemma find_preserves:
  "edges_within (h sys) me \<Longrightarrow> find_neighbors me sys e = Inr me' \<Longrightarrow>
   edges_within (h sys) me'"
  by (auto simp: find_neighbors_def Let_def split: if_splits prod.splits dest: loop_preserves)

lemma run_call_preserves:
  "edges_within (h (call_system c)) me \<Longrightarrow> run_call me c = Inr me' \<Longrightarrow>
   edges_within (h (call_system c)) me'"
  by (cases c) (auto split: sum.splits dest: add_preserves find_preserves)

text \<open>
  C7. Take a particle all of whose edges have a stored distance \<open>r \<le> h\<close> (a new particle
  has no edges), and any sequence of \<^verbatim>\<open>add_to_neighbor_list\<close> and \<^verbatim>\<open>find_neighbors\<close> calls
  on it, with any neighbors and systems of support radius \<open>h\<close>. If the calls return, every
  edge of the particle still has \<open>r \<le> h\<close>.
\<close>

theorem neighbor_edges_within_radius:
  "edges_within radius me \<Longrightarrow> list_all (\<lambda>c. h (call_system c) = radius) cs \<Longrightarrow>
   run_calls me cs = Inr me' \<Longrightarrow> edges_within radius me'"
proof (induction cs arbitrary: me)
  case Nil
  then show ?case by simp
next
  case (Cons c cs)
  from Cons.prems obtain m where m: "run_call me c = Inr m" and r: "run_calls m cs = Inr me'"
    by (auto split: sum.splits)
  from Cons.prems have hc: "h (call_system c) = radius" by simp
  from run_call_preserves [of c me m] m Cons.prems(1) hc have "edges_within radius m" by simp
  with Cons.IH [of m] Cons.prems r show ?case by simp
qed

text \<open>
  With \<open>h = 1\<close>: an added neighbor at distance 1, a candidate at distance 3 passed with
  the marker distance (left out), then a search among the three particles. The calls
  return, and the edges have the distances 1, 0 and \<open>1/2\<close>.
\<close>

theorem neighbor_edges_within_radius_witness:
  "\<exists>me'. run_calls (particle_at 0 0 0 0 1 1)
       [Add_call (particle_at 1 1 0 0 1 1) (system_of 1 three_particles) (Fin 1),
        Add_call (particle_at 2 3 0 0 1 1) (system_of 1 three_particles) ANN_DIST_INF,
        Find_call (system_of 1 three_particles) True] = Inr me' \<and>
     map dist_r (neighbors me') = [Fin 1, Fin 0, Fin (1/2)] \<and>
     edges_within (Fin 1) me'"
proof -
  let ?p = "particle_at 0 0 0 0 1 1" let ?s = "system_of 1 three_particles"
  let ?cs = "[Add_call (particle_at 1 1 0 0 1 1) ?s (Fin 1),
        Add_call (particle_at 2 3 0 0 1 1) ?s ANN_DIST_INF, Find_call ?s True]"
  have a1: "add_to_neighbor_list ?p (particle_at 1 1 0 0 1 1) ?s (Fin 1) =
     Inr (1, ?p\<lparr>neighbors := [\<lparr>data = pdata.truncate (particle_at 1 1 0 0 1 1),
          dist_r = Fin 1, dWdr = Fin 0, D_i_j = Fin 0\<rparr>]\<rparr>)"
    by (simp add: add_to_neighbor_list_def eval_simps)
  have a2: "add_to_neighbor_list (?p\<lparr>neighbors := es\<rparr>) (particle_at 2 3 0 0 1 1) ?s
       ANN_DIST_INF = Inr (0, ?p\<lparr>neighbors := es\<rparr>)" for es
    by (simp add: add_to_neighbor_list_def eval_simps power2_eq_square real_sqrt_mult)
  obtain me' where r: "run_calls ?p ?cs = Inr me'"
    and d: "map dist_r (neighbors me') = [Fin 1, Fin 0, Fin (1/2)]"
    by (simp add: a1 a2 find_three)
  have i: "edges_within (Fin 1) ?p"
    by (simp add: edges_within_def particle_at_def)
  have hs: "list_all (\<lambda>c. h (call_system c) = Fin 1) ?cs"
    by (simp add: system_of_def)
  from neighbor_edges_within_radius [OF i hs r] have "edges_within (Fin 1) me'" .
  with r d show ?thesis by (intro exI [of _ me'] conjI)
qed

section \<open>The constructors\<close>

text \<open>
  C8. After construction, the members named by constructor parameters are meant to hold
  the arguments. The constructors leave them as they were: built over a system whose
  counts are 1, 0, 0, 1, 0, 0 with the arguments 2, 3, 4, 5, 6, 7, the members keep
  1, 0, 0, 1, 0, 0; and \<^verbatim>\<open>Particle(5)\<close> built over a particle of id 0 keeps the id 0.
\<close>

theorem constructors_ignore_arguments:
  "num_types (ParticleSystem_ctor (system_of 1 []) 2 3 4 5 6 7) = 1 \<and>
   num_chem_species (ParticleSystem_ctor (system_of 1 []) 2 3 4 5 6 7) = 0 \<and>
   num_chem_rxns (ParticleSystem_ctor (system_of 1 []) 2 3 4 5 6 7) = 0 \<and>
   num_stoch_species (ParticleSystem_ctor (system_of 1 []) 2 3 4 5 6 7) = 1 \<and>
   num_stoch_rxns (ParticleSystem_ctor (system_of 1 []) 2 3 4 5 6 7) = 0 \<and>
   num_data_fn (ParticleSystem_ctor (system_of 1 []) 2 3 4 5 6 7) = 0 \<and>
   id_p (Particle_ctor (particle_at 0 0 0 0 1 1) 5) = 0"
  by (simp add: ParticleSystem_ctor_def Particle_ctor_def system_of_def particle_at_def)

section \<open>The event-time heap\<close>

lemma first_min_split:
  assumes "xs = pre0 @ m # mid" "\<forall>e\<in>set pre0. snd m < snd e" "\<forall>e\<in>set mid. snd m \<le> snd e"
  shows "\<exists>pre post. xs @ es = pre @ first_min m es # post \<and>
     (\<forall>e\<in>set pre. snd (first_min m es) < snd e) \<and>
     (\<forall>e\<in>set post. snd (first_min m es) \<le> snd e)"
  using assms
proof (induction es arbitrary: xs pre0 m mid)
  case Nil
  then show ?case by auto
next
  case (Cons e es)
  show ?case
  proof (cases "snd e < snd m")
    case True
    have "\<exists>pre post. (xs @ [e]) @ es = pre @ first_min e es # post \<and>
       (\<forall>a\<in>set pre. snd (first_min e es) < snd a) \<and>
       (\<forall>a\<in>set post. snd (first_min e es) \<le> snd a)"
    proof (rule Cons.IH [of "xs @ [e]" "pre0 @ m # mid" e "[]"])
      show "xs @ [e] = (pre0 @ m # mid) @ e # []" using Cons.prems(1) by simp
      show "\<forall>a\<in>set (pre0 @ m # mid). snd e < snd a" using True Cons.prems(2,3) by fastforce
      show "\<forall>a\<in>set []. snd e \<le> snd a" by simp
    qed
    with True show ?thesis by simp
  next
    case False
    have "\<exists>pre post. (xs @ [e]) @ es = pre @ first_min m es # post \<and>
       (\<forall>a\<in>set pre. snd (first_min m es) < snd a) \<and>
       (\<forall>a\<in>set post. snd (first_min m es) \<le> snd a)"
    proof (rule Cons.IH [of "xs @ [e]" pre0 m "mid @ [e]"])
      show "xs @ [e] = pre0 @ m # mid @ [e]" using Cons.prems(1) by simp
      show "\<forall>a\<in>set pre0. snd m < snd a" using Cons.prems(2) .
      show "\<forall>a\<in>set (mid @ [e]). snd m \<le> snd a" using False Cons.prems(3) by auto
    qed
    with False show ?thesis by simp
  qed
qed

lemma remove1_split: "m \<notin> set pre \<Longrightarrow> remove1 m (pre @ m # post) = pre @ post"
  by (induction pre) auto

lemma pop_min_spec:
  assumes a: "pop_min hp = Some (m, rest)"
  shows "\<exists>pre post. hp = pre @ m # post \<and> rest = pre @ post \<and>
       (\<forall>e\<in>set pre. snd m < snd e) \<and> (\<forall>e\<in>set post. snd m \<le> snd e)"
proof -
  from a obtain e es where hp: "hp = e # es" and m: "m = first_min e es"
    and rest: "rest = remove1 m hp"
    by (auto simp: pop_min_def Let_def split: list.splits)
  from first_min_split [of "[e]" "[]" e "[]" es] m hp obtain pre post where
    s: "hp = pre @ m # post" and p: "\<forall>a\<in>set pre. snd m < snd a"
    and q: "\<forall>a\<in>set post. snd m \<le> snd a"
    by auto
  from p have "m \<notin> set pre" by auto
  with s rest have "rest = pre @ post" by (simp add: remove1_split)
  with s p q show ?thesis by blast
qed

lemma pop_min_None: "pop_min hp = None \<longleftrightarrow> hp = []"
  by (simp add: pop_min_def Let_def split: list.splits)

text \<open>
  C9. After any sequence of \<^verbatim>\<open>insert\<close> and \<^verbatim>\<open>update\<close> operations, \<^verbatim>\<open>pop_min\<close> returns nothing
  only when the schedule is empty, and otherwise returns an entry of the schedule whose
  time is least: every entry inserted before it has a strictly greater time (ties go to
  the entry inserted first), every entry inserted after it has a time at least as great,
  and the schedule that remains is the old one without that entry.
\<close>

theorem pop_min_returns_first_least:
  "(pop_min (apply_ops ops) = None \<longleftrightarrow> apply_ops ops = []) \<and>
   (\<forall>m rest. pop_min (apply_ops ops) = Some (m, rest) \<longrightarrow>
     (\<exists>pre post. apply_ops ops = pre @ m # post \<and> rest = pre @ post \<and>
       (\<forall>e\<in>set pre. snd m < snd e) \<and> (\<forall>e\<in>set post. snd m \<le> snd e)))"
  using pop_min_spec [of "apply_ops ops"] pop_min_None [of "apply_ops ops"] by blast

text \<open>
  Three inserts and two updates leave the entries \<open>(1, 3)\<close>, \<open>(2, 4)\<close>, \<open>(3, 3)\<close>;
  \<^verbatim>\<open>pop_min\<close> returns entity 1, inserted before entity 3 of the same time.
\<close>

theorem pop_min_returns_first_least_witness:
  "pop_min (apply_ops [Insert 1 (5::real), Insert 2 3, Insert 3 3, Update 1 3, Update 2 4])
     = Some ((1, 3), [(2, 4), (3, 3)]) \<and>
   apply_ops [Insert 1 (5::real), Insert 2 3, Insert 3 3, Update 1 3, Update 2 4]
     = [] @ (1, 3) # [(2, 4), (3, 3)]"
proof -
  let ?ops = "[Insert 1 (5::real), Insert 2 3, Insert 3 3, Update 1 3, Update 2 4]"
  have e: "pop_min (apply_ops ?ops) = Some ((1, 3), [(2, 4), (3, 3)])"
    by (simp add: apply_ops_def heap_insert_def heap_update_def pop_min_def)
  from pop_min_returns_first_least [of ?ops] e obtain pre post where
    "apply_ops ?ops = pre @ (1, 3) # post" "[(2, 4), (3, 3)] = pre @ post"
    "\<forall>e\<in>set pre. snd (1::nat, 3::real) < snd e"
    by blast
  moreover have "apply_ops ?ops = [(1, 3), (2, 4), (3, 3)]"
    by (simp add: apply_ops_def heap_insert_def heap_update_def)
  ultimately show ?thesis using e by simp
qed

end
